theory Spec2Isabelle
  imports Main "HOL-Library.Sublist"
begin

section \<open>Values of the host language\<close>

text \<open>
  The route metadata is an object of type \<^verbatim>\<open>Data = {[key: string]: any}\<close>. The values the
  breadcrumb code looks at are read with \<^verbatim>\<open>data.breadcrumb\<close>, tested for truthiness, tested
  with \<^verbatim>\<open>typeof ... === 'function'\<close> and, when a function, called. Values that are not
  functions are \<open>jsval\<close>: undefined, null, booleans, numbers, strings and objects. A number
  is modelled by its integral value, with \<open>JNaN\<close> for NaN (zero and NaN are the falsy
  numbers); an object by the list of its properties.
\<close>

datatype jsval =
    JUndefined
  | JNull
  | JBool bool
  | JNum int
  | JNaN
  | JStr string
  | JObj "(string \<times> jsval) list"

text \<open>The plain (non-function) properties of a data bag, as a label function reads them.\<close>

type_synonym resolved = "string \<rightharpoonup> jsval"

text \<open>
  A property of the data bag is a plain value or a function of the data bag
  (\<^verbatim>\<open>(data: any) => ...\<close>, "a function using the data object itself and returning a
  string"). In the model of the list that is built, a label function is a total function
  of the bag's plain properties: it returns a value and does not look at the
  function-valued properties of the bag (itself among them). What a label function may
  write while it runs is the subject of the store model further down, where a label
  function takes the store and returns it.
\<close>

datatype any = Val jsval | Fn "resolved \<Rightarrow> jsval"

type_synonym data = "string \<rightharpoonup> any"

text \<open>Reading a property: a missing key reads as \<^verbatim>\<open>undefined\<close>.\<close>

definition property :: "data \<Rightarrow> string \<Rightarrow> any" where
  "property d k = (case d k of None \<Rightarrow> Val JUndefined | Some v \<Rightarrow> v)"

definition plain :: "data \<Rightarrow> resolved" where
  "plain d = (\<lambda>k. case d k of Some (Val v) \<Rightarrow> Some v | _ \<Rightarrow> None)"

text \<open>Truthiness, as \<^verbatim>\<open>if (x)\<close> tests it.\<close>

fun truthy_val :: "jsval \<Rightarrow> bool" where
  "truthy_val JUndefined = False"
| "truthy_val JNull = False"
| "truthy_val (JBool b) = b"
| "truthy_val (JNum n) = (n \<noteq> 0)"
| "truthy_val JNaN = False"
| "truthy_val (JStr s) = (s \<noteq> [])"
| "truthy_val (JObj fs) = True"

fun truthy :: "any \<Rightarrow> bool" where
  "truthy (Val v) = truthy_val v"
| "truthy (Fn f) = True"

text \<open>\<^verbatim>\<open>Array.prototype.join\<close> on an array of strings.\<close>

fun join :: "string list \<Rightarrow> string \<Rightarrow> string" where
  "join [] sep = []"
| "join [x] sep = x"
| "join (x # y # ys) sep = x @ sep @ join (y # ys) sep"

section \<open>The data model\<close>

text \<open>A \<^verbatim>\<open>Breadcrumb\<close>, as the service builds it: \<^verbatim>\<open>{ label: ..., url: ... }\<close>. The label
  holds whatever \<^verbatim>\<open>getLabel\<close> returns.\<close>

record breadcrumb =
  label :: jsval
  url :: string

text \<open>The router's \<^verbatim>\<open>UrlSegment\<close>: a path and its matrix parameters.\<close>

record urlSegment =
  path :: string
  parameters :: "(string \<times> string) list"

text \<open>The router's \<^verbatim>\<open>ActivatedRouteSnapshot\<close>, with the fields the service reads:
  \<^verbatim>\<open>url\<close>, \<^verbatim>\<open>data\<close> and the children, of which \<^verbatim>\<open>firstChild\<close> is the first, or null.\<close>

datatype activatedRouteSnapshot =
  ActivatedRouteSnapshot
    (route_url: "urlSegment list")
    (route_data: data)
    (children: "activatedRouteSnapshot list")

definition firstChild :: "activatedRouteSnapshot \<Rightarrow> activatedRouteSnapshot option" where
  "firstChild route = (case children route of [] \<Rightarrow> None | c # _ \<Rightarrow> Some c)"

section \<open>The breadcrumb service\<close>

text \<open>\<^verbatim>\<open>typeof data.breadcrumb === 'function' ? data.breadcrumb(data) : data.breadcrumb\<close>\<close>

definition getLabel :: "data \<Rightarrow> jsval" where
  "getLabel d = (case property d ''breadcrumb'' of Fn f \<Rightarrow> f (plain d) | Val v \<Rightarrow> v)"

lemma firstChild_size:
  "firstChild route = Some c \<Longrightarrow> size c < size route"
  by (cases route) (auto simp: firstChild_def split: list.splits)

lemma size_route_pos: "0 < size (route :: activatedRouteSnapshot)"
  by (cases route) simp

text \<open>
  \<^verbatim>\<open>addBreadcrumb(route, parentUrl, breadcrumbs)\<close>. The null route is \<open>None\<close>. The array
  \<^verbatim>\<open>breadcrumbs\<close> is pushed to in place; the model returns its contents after the call.
\<close>

function addBreadcrumb ::
  "activatedRouteSnapshot option \<Rightarrow> string list \<Rightarrow> breadcrumb list \<Rightarrow> breadcrumb list" where
  "addBreadcrumb None parentUrl breadcrumbs = breadcrumbs"
| "addBreadcrumb (Some route) parentUrl breadcrumbs =
     (let routeUrl = parentUrl @ map path (route_url route);
          breadcrumbs' =
            (if truthy (property (route_data route) ''breadcrumb'')
             then breadcrumbs @
                    [\<lparr>label = getLabel (route_data route), url = ''/'' @ join routeUrl ''/''\<rparr>]
             else breadcrumbs)
      in addBreadcrumb (firstChild route) routeUrl breadcrumbs')"
  by pat_completeness auto
termination
  by (relation "measure (\<lambda>(r, p, b). case r of None \<Rightarrow> 0 | Some x \<Rightarrow> size x)")
     (auto simp: firstChild_size size_route_pos split: option.splits)

declare addBreadcrumb.simps(2) [simp del]

section \<open>The service and its subject\<close>

text \<open>
  The service keeps a \<^verbatim>\<open>BehaviorSubject<Breadcrumb[]>\<close> and exposes it as the observable
  \<^verbatim>\<open>breadcrumbs$\<close>. The subject is the reactive library's; its contract is: it is created with
  an initial value and always holds a current one; \<^verbatim>\<open>subscribe\<close> registers the observer and
  delivers the current value to it at once; \<^verbatim>\<open>next(v)\<close> makes \<open>v\<close> the current value and
  delivers it to every registered observer. Observers are named by numbers, and the
  subject's record logs every delivery in order.
\<close>

record 'a behaviorSubject =
  current :: 'a
  observers :: "nat list"
  delivered :: "(nat \<times> 'a) list"

definition newBehaviorSubject :: "'a \<Rightarrow> 'a behaviorSubject" where
  "newBehaviorSubject v = \<lparr>current = v, observers = [], delivered = []\<rparr>"

definition subscribe :: "nat \<Rightarrow> 'a behaviorSubject \<Rightarrow> 'a behaviorSubject" where
  "subscribe k s =
     s\<lparr>observers := observers s @ [k], delivered := delivered s @ [(k, current s)]\<rparr>"

definition next_value :: "'a \<Rightarrow> 'a behaviorSubject \<Rightarrow> 'a behaviorSubject" where
  "next_value v s =
     s\<lparr>current := v, delivered := delivered s @ map (\<lambda>k. (k, v)) (observers s)\<rparr>"

text \<open>The router's event classes. The service looks only at the class of an event
  (\<^verbatim>\<open>event instanceof NavigationEnd\<close>).\<close>

datatype routerEvent =
    NavigationStart
  | RouteConfigLoadStart
  | RouteConfigLoadEnd
  | RoutesRecognized
  | GuardsCheckStart
  | ChildActivationStart
  | ActivationStart
  | GuardsCheckEnd
  | ResolveStart
  | ResolveEnd
  | ChildActivationEnd
  | ActivationEnd
  | NavigationEnd
  | NavigationCancel
  | NavigationError
  | Scroll

text \<open>The service's state is its subject \<^verbatim>\<open>_breadcrumbs$\<close>, created holding the empty list.\<close>

record breadcrumbService =
  breadcrumbs_subject :: "breadcrumb list behaviorSubject"

definition newBreadcrumbService :: breadcrumbService where
  "newBreadcrumbService = \<lparr>breadcrumbs_subject = newBehaviorSubject []\<rparr>"

text \<open>
  The subscription of the constructor, run on one router event: the filter lets only
  \<^verbatim>\<open>NavigationEnd\<close> through, and the handler builds the list from
  \<^verbatim>\<open>router.routerState.snapshot.root\<close>, here the argument \<open>root\<close> (the router's snapshot
  when the event is delivered), and emits it.
\<close>

definition onRouterEvent ::
  "routerEvent \<Rightarrow> activatedRouteSnapshot \<Rightarrow> breadcrumbService \<Rightarrow> breadcrumbService" where
  "onRouterEvent event root service =
     (if event = NavigationEnd
      then (let breadcrumbs = addBreadcrumb (Some root) [] []
            in service\<lparr>breadcrumbs_subject :=
                         next_value breadcrumbs (breadcrumbs_subject service)\<rparr>)
      else service)"

text \<open>What happens to a service after its construction: the router delivers an event, or
  an observer subscribes to \<^verbatim>\<open>breadcrumbs$\<close>.\<close>

datatype action =
    RouterEvent routerEvent activatedRouteSnapshot
  | Subscribe nat

fun step :: "action \<Rightarrow> breadcrumbService \<Rightarrow> breadcrumbService" where
  "step (RouterEvent event root) service = onRouterEvent event root service"
| "step (Subscribe k) service =
     service\<lparr>breadcrumbs_subject := subscribe k (breadcrumbs_subject service)\<rparr>"

fun run :: "action list \<Rightarrow> breadcrumbService \<Rightarrow> breadcrumbService" where
  "run [] service = service"
| "run (a # as) service = run as (step a service)"

section \<open>The same code on a store of objects\<close>

text \<open>
  \<^verbatim>\<open>addBreadcrumb\<close> and \<^verbatim>\<open>getLabel\<close> once more, on a store of objects, to see what they
  write. A snapshot object holds its URL segments, its data bag and the references to its
  children; an array object holds breadcrumbs. A property of a data bag is a plain value
  or a function, and a function is kept by its number: what it does is given by a table.
\<close>

type_synonym ref = nat

datatype stored = Plain jsval | Function nat

record snapshotObject =
  object_url :: "urlSegment list"
  object_data :: "string \<rightharpoonup> stored"
  object_children :: "ref list"

record heap =
  snapshots :: "ref \<rightharpoonup> snapshotObject"
  arrays :: "ref \<rightharpoonup> breadcrumb list"

text \<open>
  The table of the label functions. \<^verbatim>\<open>data.breadcrumb(data)\<close> hands the live data object to
  the function: the function with number \<open>f\<close>, called on the data bag of the snapshot at
  \<open>r\<close> in the store \<open>h\<close>, returns \<open>fst (code f r h)\<close> and leaves the store
  \<open>snd (code f r h)\<close>. It may write to the bag it is handed and to anything else it can
  reach.
\<close>

type_synonym labelFunctions = "nat \<Rightarrow> ref \<Rightarrow> heap \<Rightarrow> jsval \<times> heap"

definition property_heap :: "(string \<rightharpoonup> stored) \<Rightarrow> string \<Rightarrow> stored" where
  "property_heap d k = (case d k of None \<Rightarrow> Plain JUndefined | Some v \<Rightarrow> v)"

fun truthy_stored :: "stored \<Rightarrow> bool" where
  "truthy_stored (Plain v) = truthy_val v"
| "truthy_stored (Function f) = True"

text \<open>\<^verbatim>\<open>breadcrumbs.push(breadcrumb)\<close>\<close>

definition push :: "ref \<Rightarrow> breadcrumb \<Rightarrow> heap \<Rightarrow> heap option" where
  "push a x h =
     (case arrays h a of
        None \<Rightarrow> None
      | Some xs \<Rightarrow> Some (h\<lparr>arrays := (arrays h)(a \<mapsto> xs @ [x])\<rparr>))"

text \<open>\<^verbatim>\<open>route.firstChild\<close>\<close>

definition firstChild_heap :: "snapshotObject \<Rightarrow> ref option" where
  "firstChild_heap route = (case object_children route of [] \<Rightarrow> None | c # _ \<Rightarrow> Some c)"

text \<open>\<^verbatim>\<open>getLabel(route.data)\<close>, for the snapshot at \<open>r\<close>: the label and the store after the
  call.\<close>

definition getLabel_heap :: "labelFunctions \<Rightarrow> ref \<Rightarrow> heap \<Rightarrow> (jsval \<times> heap) option" where
  "getLabel_heap code r h =
     (case snapshots h r of
        None \<Rightarrow> None
      | Some route \<Rightarrow>
          (case property_heap (object_data route) ''breadcrumb'' of
             Function f \<Rightarrow> Some (code f r h)
           | Plain v \<Rightarrow> Some (v, h)))"

text \<open>
  \<^verbatim>\<open>addBreadcrumb\<close> is given a reference to a snapshot (or null) and a reference to the
  array it pushes to. The URL is built from the segments read before the label function
  runs, the first child is read after it. The store need not hold a tree (a child
  reference may lead back to an ancestor), so the recursion is bounded by a number of
  calls; \<open>None\<close> is returned when the bound is reached, and for a reference that the
  store does not hold, which no execution produces.
\<close>

fun addBreadcrumb_heap ::
  "labelFunctions \<Rightarrow> nat \<Rightarrow> ref option \<Rightarrow> string list \<Rightarrow> ref \<Rightarrow> heap \<Rightarrow> heap option" where
  "addBreadcrumb_heap code 0 route parentUrl breadcrumbs h = None"
| "addBreadcrumb_heap code (Suc n) None parentUrl breadcrumbs h = Some h"
| "addBreadcrumb_heap code (Suc n) (Some r) parentUrl breadcrumbs h =
     (case snapshots h r of
        None \<Rightarrow> None
      | Some route \<Rightarrow>
          (let routeUrl = parentUrl @ map path (object_url route)
           in case (if truthy_stored (property_heap (object_data route) ''breadcrumb'')
                    then (case getLabel_heap code r h of
                            None \<Rightarrow> None
                          | Some (l, h1) \<Rightarrow>
                              push breadcrumbs \<lparr>label = l, url = ''/'' @ join routeUrl ''/''\<rparr> h1)
                    else Some h) of
                None \<Rightarrow> None
              | Some h2 \<Rightarrow>
                  (case snapshots h2 r of
                     None \<Rightarrow> None
                   | Some route' \<Rightarrow>
                       addBreadcrumb_heap code n (firstChild_heap route') routeUrl breadcrumbs h2)))"

section \<open>Notions for stating the properties\<close>

text \<open>The chain root, root.firstChild, root.firstChild.firstChild, ...\<close>

function activePath :: "activatedRouteSnapshot \<Rightarrow> activatedRouteSnapshot list" where
  "activePath route =
     route # (case firstChild route of None \<Rightarrow> [] | Some c \<Rightarrow> activePath c)"
  by pat_completeness auto
termination
  by (relation "measure size") (auto simp: firstChild_size)

declare activePath.simps [simp del]

text \<open>What the walk appends for a chain of nodes, given the segments above the chain.\<close>

fun trail :: "string list \<Rightarrow> activatedRouteSnapshot list \<Rightarrow> breadcrumb list" where
  "trail parentUrl [] = []"
| "trail parentUrl (n # ns) =
     (let routeUrl = parentUrl @ map path (route_url n)
      in (if truthy (property (route_data n) ''breadcrumb'')
          then [\<lparr>label = getLabel (route_data n), url = ''/'' @ join routeUrl ''/''\<rparr>]
          else []) @ trail routeUrl ns)"

text \<open>
  The recursion with an explicit bound on the number of calls: \<open>None\<close> when the bound
  is reached before the recursion has returned. One unit of fuel is one call of
  \<^verbatim>\<open>addBreadcrumb\<close>, the last one being the call on the null child.
\<close>

fun addBreadcrumb_fuel ::
  "nat \<Rightarrow> activatedRouteSnapshot option \<Rightarrow> string list \<Rightarrow> breadcrumb list \<Rightarrow>
     breadcrumb list option" where
  "addBreadcrumb_fuel 0 route parentUrl breadcrumbs = None"
| "addBreadcrumb_fuel (Suc n) None parentUrl breadcrumbs = Some breadcrumbs"
| "addBreadcrumb_fuel (Suc n) (Some route) parentUrl breadcrumbs =
     (let routeUrl = parentUrl @ map path (route_url route);
          breadcrumbs' =
            (if truthy (property (route_data route) ''breadcrumb'')
             then breadcrumbs @
                    [\<lparr>label = getLabel (route_data route), url = ''/'' @ join routeUrl ''/''\<rparr>]
             else breadcrumbs)
      in addBreadcrumb_fuel n (firstChild route) routeUrl breadcrumbs')"

text \<open>The tree with the subtree at a position replaced: a position is the list of child
  indices leading from the root to the subtree's root. A position that leaves the tree
  names no subtree, and nothing is replaced.\<close>

fun replaceAt ::
  "nat list \<Rightarrow> activatedRouteSnapshot \<Rightarrow> activatedRouteSnapshot \<Rightarrow> activatedRouteSnapshot" where
  "replaceAt [] new route = new"
| "replaceAt (i # pos) new route =
     (if i < length (children route)
      then ActivatedRouteSnapshot (route_url route) (route_data route)
             ((children route)[i := replaceAt pos new (children route ! i)])
      else route)"

text \<open>The snapshot root of the last navigation completion of a trace, if there is one.\<close>

fun lastNavigationEnd :: "action list \<Rightarrow> activatedRouteSnapshot option" where
  "lastNavigationEnd [] = None"
| "lastNavigationEnd (RouterEvent event root # as) =
     (case lastNavigationEnd as of
        Some r \<Rightarrow> Some r
      | None \<Rightarrow> if event = NavigationEnd then Some root else None)"
| "lastNavigationEnd (Subscribe k # as) = lastNavigationEnd as"

text \<open>The observers that subscribe in a trace, in the order of their subscriptions.\<close>

fun subscribers :: "action list \<Rightarrow> nat list" where
  "subscribers [] = []"
| "subscribers (RouterEvent event root # as) = subscribers as"
| "subscribers (Subscribe k # as) = k # subscribers as"

text \<open>
  Reading a store as a tree. When every label function is a function of the plain
  properties of the bag it is handed, \<open>sem f\<close> for the function with number \<open>f\<close>, a data
  bag of the store is a data bag of the tree model, and \<open>tree_at\<close> reads the tree below
  a reference, down to a given depth (\<open>None\<close> when the store holds no tree of that depth
  there).
\<close>

definition plain_heap :: "(string \<rightharpoonup> stored) \<Rightarrow> resolved" where
  "plain_heap d = (\<lambda>k. case d k of Some (Plain v) \<Rightarrow> Some v | _ \<Rightarrow> None)"

definition data_of :: "(nat \<Rightarrow> resolved \<Rightarrow> jsval) \<Rightarrow> (string \<rightharpoonup> stored) \<Rightarrow> data" where
  "data_of sem d =
     (\<lambda>k. case d k of
             None \<Rightarrow> None
           | Some (Plain v) \<Rightarrow> Some (Val v)
           | Some (Function f) \<Rightarrow> Some (Fn (sem f)))"

fun tree_at ::
  "(nat \<Rightarrow> resolved \<Rightarrow> jsval) \<Rightarrow> nat \<Rightarrow> heap \<Rightarrow> ref \<Rightarrow> activatedRouteSnapshot option" where
  "tree_at sem 0 h r = None"
| "tree_at sem (Suc depth) h r =
     (case snapshots h r of
        None \<Rightarrow> None
      | Some ob \<Rightarrow>
          (case those (map (tree_at sem depth h) (object_children ob)) of
             None \<Rightarrow> None
           | Some cs \<Rightarrow>
               Some (ActivatedRouteSnapshot (object_url ob) (data_of sem (object_data ob)) cs)))"

text \<open>
  Two tables of label functions. In the first every function is \<^verbatim>\<open>(data) => data.user\<close>,
  which reads the bag and writes nothing. In the second every function is
  \<^verbatim>\<open>(data) => { data.visits = 1; return 'Users'; }\<close>, which writes to the bag it is handed.
\<close>

definition readsUser :: labelFunctions where
  "readsUser f r h =
     (case snapshots h r of
        None \<Rightarrow> (JUndefined, h)
      | Some ob \<Rightarrow>
          (case object_data ob ''user'' of
             Some (Plain v) \<Rightarrow> (v, h)
           | _ \<Rightarrow> (JUndefined, h)))"

definition countsVisits :: labelFunctions where
  "countsVisits f r h =
     (case snapshots h r of
        None \<Rightarrow> (JStr ''Users'', h)
      | Some ob \<Rightarrow>
          (JStr ''Users'',
           h\<lparr>snapshots := (snapshots h)
                (r \<mapsto> ob\<lparr>object_data := (object_data ob)(''visits'' \<mapsto> Plain (JNum 1))\<rparr>)\<rparr>))"

section \<open>The walk appends the trail of the active path\<close>

lemma addBreadcrumb_trail:
  "addBreadcrumb (Some route) parentUrl breadcrumbs =
     breadcrumbs @ trail parentUrl (activePath route)"
proof (induction route arbitrary: parentUrl breadcrumbs rule: activePath.induct)
  case (1 route)
  show ?case
  proof (cases "firstChild route")
    case None
    then show ?thesis
      by (simp add: addBreadcrumb.simps(2) activePath.simps [of route] Let_def)
  next
    case (Some c)
    then show ?thesis
      using "1.IH" [OF Some]
      by (simp add: addBreadcrumb.simps(2) activePath.simps [of route] Let_def)
  qed
qed

text \<open>C10: the accumulator passed in is a prefix of the accumulator after the call, for
  every route (null included), parent URL and accumulator: elements are only appended.\<close>

theorem addBreadcrumb_appends_only:
  "prefix breadcrumbs (addBreadcrumb route parentUrl breadcrumbs)"
  by (cases route) (simp_all add: addBreadcrumb_trail)

section \<open>Labels\<close>

lemma addBreadcrumb_pushes:
  assumes "truthy (property (route_data route) ''breadcrumb'')"
  shows "addBreadcrumb (Some route) parentUrl breadcrumbs ! length breadcrumbs =
           \<lparr>label = getLabel (route_data route),
            url = ''/'' @ join (parentUrl @ map path (route_url route)) ''/''\<rparr>"
  using assms
  by (simp add: addBreadcrumb_trail activePath.simps [of route] Let_def nth_append)

text \<open>C2: the label of a node is its breadcrumb entry when the entry is a literal string,
  and the entry applied to the node's data bag when the entry is a function. This is what
  \<open>getLabel\<close> returns on the node's data, and it is the label of the element that
  \<open>addBreadcrumb\<close> pushes for the node (the element at the accumulator's old length)
  whenever it pushes one: for a function entry always, for a string entry when the string
  is not empty.\<close>

theorem getLabel_literal_or_applied:
  "(route_data route ''breadcrumb'' = Some (Val (JStr s)) \<longrightarrow>
      getLabel (route_data route) = JStr s \<and>
      (s \<noteq> [] \<longrightarrow>
         label (addBreadcrumb (Some route) parentUrl breadcrumbs ! length breadcrumbs) = JStr s)) \<and>
   (route_data route ''breadcrumb'' = Some (Fn f) \<longrightarrow>
      getLabel (route_data route) = f (plain (route_data route)) \<and>
      label (addBreadcrumb (Some route) parentUrl breadcrumbs ! length breadcrumbs) =
        f (plain (route_data route)))"
proof (intro conjI impI)
  assume e: "route_data route ''breadcrumb'' = Some (Val (JStr s))"
  then show l: "getLabel (route_data route) = JStr s"
    by (simp add: getLabel_def property_def)
  assume "s \<noteq> []"
  with e have "truthy (property (route_data route) ''breadcrumb'')"
    by (simp add: property_def)
  from addBreadcrumb_pushes [OF this] l
  show "label (addBreadcrumb (Some route) parentUrl breadcrumbs ! length breadcrumbs) = JStr s"
    by simp
next
  assume e: "route_data route ''breadcrumb'' = Some (Fn f)"
  then show l: "getLabel (route_data route) = f (plain (route_data route))"
    by (simp add: getLabel_def property_def)
  from e have "truthy (property (route_data route) ''breadcrumb'')"
    by (simp add: property_def)
  from addBreadcrumb_pushes [OF this] l
  show "label (addBreadcrumb (Some route) parentUrl breadcrumbs ! length breadcrumbs) =
          f (plain (route_data route))"
    by simp
qed

theorem getLabel_literal_or_applied_witness:
  "getLabel [''breadcrumb'' \<mapsto> Val (JStr ''Users'')] = JStr ''Users'' \<and>
   label (addBreadcrumb
            (Some (ActivatedRouteSnapshot [\<lparr>path = ''users'', parameters = []\<rparr>]
                     [''breadcrumb'' \<mapsto> Val (JStr ''Users'')] []))
            [] [] ! 0) = JStr ''Users'' \<and>
   getLabel [''breadcrumb'' \<mapsto> Fn (\<lambda>d. case d ''user'' of None \<Rightarrow> JUndefined | Some v \<Rightarrow> v),
             ''user'' \<mapsto> Val (JStr ''Leanne Graham'')] = JStr ''Leanne Graham'' \<and>
   label (addBreadcrumb
            (Some (ActivatedRouteSnapshot [\<lparr>path = ''1'', parameters = []\<rparr>]
                     [''breadcrumb'' \<mapsto>
                        Fn (\<lambda>d. case d ''user'' of None \<Rightarrow> JUndefined | Some v \<Rightarrow> v),
                      ''user'' \<mapsto> Val (JStr ''Leanne Graham'')] []))
            [''users''] [] ! 0) = JStr ''Leanne Graham''"
  using
    getLabel_literal_or_applied
      [of "ActivatedRouteSnapshot [\<lparr>path = ''users'', parameters = []\<rparr>]
             [''breadcrumb'' \<mapsto> Val (JStr ''Users'')] []"
          "''Users''" "[]" "[]"]
    getLabel_literal_or_applied
      [of "ActivatedRouteSnapshot [\<lparr>path = ''1'', parameters = []\<rparr>]
             [''breadcrumb'' \<mapsto>
                Fn (\<lambda>d. case d ''user'' of None \<Rightarrow> JUndefined | Some v \<Rightarrow> v),
              ''user'' \<mapsto> Val (JStr ''Leanne Graham'')] []"
          _ "[''users'']" "[]"
          "\<lambda>d. case d ''user'' of None \<Rightarrow> JUndefined | Some v \<Rightarrow> v"]
  by (simp add: plain_def)

section \<open>Nodes that push nothing\<close>

lemma trail_urls:
  "b \<in> set (trail parentUrl ns) \<Longrightarrow> \<exists>rest. url b = ''/'' @ join (parentUrl @ rest) ''/''"
proof (induction ns arbitrary: parentUrl)
  case Nil
  then show ?case by simp
next
  case (Cons n ns)
  let ?u = "parentUrl @ map path (route_url n)"
  from Cons.prems consider
    (here) "b = \<lparr>label = getLabel (route_data n), url = ''/'' @ join ?u ''/''\<rparr>"
    | (below) "b \<in> set (trail ?u ns)"
    by (auto simp: Let_def split: if_splits)
  then show ?case
  proof cases
    case here
    then have "url b = ''/'' @ join (parentUrl @ map path (route_url n)) ''/''" by simp
    then show ?thesis by blast
  next
    case below
    from Cons.IH [OF below] obtain rest where
      "url b = ''/'' @ join ((parentUrl @ map path (route_url n)) @ rest) ''/''" by blast
    then have "url b = ''/'' @ join (parentUrl @ (map path (route_url n) @ rest)) ''/''"
      by simp
    then show ?thesis by blast
  qed
qed

lemma addBreadcrumb_skip:
  assumes "\<not> truthy (property (route_data route) ''breadcrumb'')"
  shows "addBreadcrumb (Some route) parentUrl breadcrumbs =
           addBreadcrumb (firstChild route) (parentUrl @ map path (route_url route)) breadcrumbs"
  using assms by (simp add: addBreadcrumb.simps(2) Let_def)

lemma addBreadcrumb_below_urls:
  assumes "b \<in> set (drop (length breadcrumbs) (addBreadcrumb route parentUrl breadcrumbs))"
  shows "\<exists>rest. url b = ''/'' @ join (parentUrl @ rest) ''/''"
proof (cases route)
  case None
  with assms show ?thesis by simp
next
  case (Some r)
  with assms have "b \<in> set (trail parentUrl (activePath r))"
    by (simp add: addBreadcrumb_trail)
  then show ?thesis by (rule trail_urls)
qed

text \<open>C3: a node on the active path with no breadcrumb entry in its data adds no element:
  the call on the node returns what the call on its first child returns from the same
  accumulator, with the node's path segments appended to the parent URL; and the URL of
  every element added below the node is '/' followed by the '/'-joined list that starts
  with the parent URL and the node's own segments.\<close>

theorem addBreadcrumb_skips_missing_entry:
  assumes "route_data route ''breadcrumb'' = None"
  shows "addBreadcrumb (Some route) parentUrl breadcrumbs =
           addBreadcrumb (firstChild route) (parentUrl @ map path (route_url route)) breadcrumbs
         \<and> list_all
             (\<lambda>b. \<exists>rest. url b =
                     ''/'' @ join (parentUrl @ map path (route_url route) @ rest) ''/'')
             (drop (length breadcrumbs) (addBreadcrumb (Some route) parentUrl breadcrumbs))"
proof -
  from assms have f: "\<not> truthy (property (route_data route) ''breadcrumb'')"
    by (simp add: property_def)
  have eq: "addBreadcrumb (Some route) parentUrl breadcrumbs =
         addBreadcrumb (firstChild route) (parentUrl @ map path (route_url route)) breadcrumbs"
    by (rule addBreadcrumb_skip [OF f])
  have "\<exists>rest. url b = ''/'' @ join (parentUrl @ map path (route_url route) @ rest) ''/''"
    if "b \<in> set (drop (length breadcrumbs) (addBreadcrumb (Some route) parentUrl breadcrumbs))"
    for b
    using addBreadcrumb_below_urls [of b breadcrumbs "firstChild route"
        "parentUrl @ map path (route_url route)"] that
    by (simp add: eq)
  with eq show ?thesis by (simp add: list_all_iff)
qed

theorem addBreadcrumb_skips_missing_entry_witness:
  "addBreadcrumb
     (Some (ActivatedRouteSnapshot [\<lparr>path = ''users'', parameters = []\<rparr>] Map.empty
        [ActivatedRouteSnapshot [\<lparr>path = ''1'', parameters = []\<rparr>]
           [''breadcrumb'' \<mapsto> Val (JStr ''Leanne Graham'')] []]))
     [''app''] [\<lparr>label = JStr ''App'', url = ''/app''\<rparr>] =
   addBreadcrumb
     (Some (ActivatedRouteSnapshot [\<lparr>path = ''1'', parameters = []\<rparr>]
           [''breadcrumb'' \<mapsto> Val (JStr ''Leanne Graham'')] []))
     [''app'', ''users''] [\<lparr>label = JStr ''App'', url = ''/app''\<rparr>] \<and>
   addBreadcrumb
     (Some (ActivatedRouteSnapshot [\<lparr>path = ''users'', parameters = []\<rparr>] Map.empty
        [ActivatedRouteSnapshot [\<lparr>path = ''1'', parameters = []\<rparr>]
           [''breadcrumb'' \<mapsto> Val (JStr ''Leanne Graham'')] []]))
     [''app''] [\<lparr>label = JStr ''App'', url = ''/app''\<rparr>] =
   [\<lparr>label = JStr ''App'', url = ''/app''\<rparr>,
    \<lparr>label = JStr ''Leanne Graham'', url = ''/app/users/1''\<rparr>]"
  using addBreadcrumb_skips_missing_entry
    [of "ActivatedRouteSnapshot [\<lparr>path = ''users'', parameters = []\<rparr>] Map.empty
        [ActivatedRouteSnapshot [\<lparr>path = ''1'', parameters = []\<rparr>]
           [''breadcrumb'' \<mapsto> Val (JStr ''Leanne Graham'')] []]"
        "[''app'']" "[\<lparr>label = JStr ''App'', url = ''/app''\<rparr>]"]
  by (simp add: firstChild_def addBreadcrumb.simps(2) property_def getLabel_def)

text \<open>C8: a node whose breadcrumb entry is present but falsy (the empty string, for one)
  adds no element either: the test is the truthiness of the entry. The call on the node
  returns what the call on its first child returns from the same accumulator, with the
  node's path segments appended to the parent URL, and the URL of every element added
  below the node starts with the parent URL and the node's own segments.\<close>

theorem addBreadcrumb_skips_falsy_entry:
  assumes "route_data route ''breadcrumb'' = Some (Val v)" and "\<not> truthy_val v"
  shows "addBreadcrumb (Some route) parentUrl breadcrumbs =
           addBreadcrumb (firstChild route) (parentUrl @ map path (route_url route)) breadcrumbs
         \<and> list_all
             (\<lambda>b. \<exists>rest. url b =
                     ''/'' @ join (parentUrl @ map path (route_url route) @ rest) ''/'')
             (drop (length breadcrumbs) (addBreadcrumb (Some route) parentUrl breadcrumbs))"
proof -
  from assms have f: "\<not> truthy (property (route_data route) ''breadcrumb'')"
    by (simp add: property_def)
  have eq: "addBreadcrumb (Some route) parentUrl breadcrumbs =
         addBreadcrumb (firstChild route) (parentUrl @ map path (route_url route)) breadcrumbs"
    by (rule addBreadcrumb_skip [OF f])
  have "\<exists>rest. url b = ''/'' @ join (parentUrl @ map path (route_url route) @ rest) ''/''"
    if "b \<in> set (drop (length breadcrumbs) (addBreadcrumb (Some route) parentUrl breadcrumbs))"
    for b
    using addBreadcrumb_below_urls [of b breadcrumbs "firstChild route"
        "parentUrl @ map path (route_url route)"] that
    by (simp add: eq)
  with eq show ?thesis by (simp add: list_all_iff)
qed

theorem addBreadcrumb_skips_falsy_entry_witness:
  "\<not> truthy_val (JStr []) \<and>
   addBreadcrumb
     (Some (ActivatedRouteSnapshot [\<lparr>path = ''users'', parameters = []\<rparr>]
        [''breadcrumb'' \<mapsto> Val (JStr [])]
        [ActivatedRouteSnapshot [\<lparr>path = ''1'', parameters = []\<rparr>]
           [''breadcrumb'' \<mapsto> Val (JStr ''Leanne Graham'')] []]))
     [] [] =
   addBreadcrumb
     (Some (ActivatedRouteSnapshot [\<lparr>path = ''1'', parameters = []\<rparr>]
           [''breadcrumb'' \<mapsto> Val (JStr ''Leanne Graham'')] []))
     [''users''] [] \<and>
   addBreadcrumb
     (Some (ActivatedRouteSnapshot [\<lparr>path = ''users'', parameters = []\<rparr>]
        [''breadcrumb'' \<mapsto> Val (JStr [])]
        [ActivatedRouteSnapshot [\<lparr>path = ''1'', parameters = []\<rparr>]
           [''breadcrumb'' \<mapsto> Val (JStr ''Leanne Graham'')] []]))
     [] [] =
   [\<lparr>label = JStr ''Leanne Graham'', url = ''/users/1''\<rparr>]"
  using addBreadcrumb_skips_falsy_entry
    [of "ActivatedRouteSnapshot [\<lparr>path = ''users'', parameters = []\<rparr>]
        [''breadcrumb'' \<mapsto> Val (JStr [])]
        [ActivatedRouteSnapshot [\<lparr>path = ''1'', parameters = []\<rparr>]
           [''breadcrumb'' \<mapsto> Val (JStr ''Leanne Graham'')] []]"
        "JStr []" "[]" "[]"]
  by (simp add: firstChild_def addBreadcrumb.simps(2) property_def getLabel_def)

section \<open>Termination\<close>

lemma activePath_length_le_size: "length (activePath r) \<le> size r"
proof (induction r rule: activePath.induct)
  case (1 r)
  show ?case
  proof (cases "firstChild r")
    case None
    then show ?thesis
      using size_route_pos [of r] by (simp add: activePath.simps [of r])
  next
    case (Some c)
    then show ?thesis
      using "1.IH" [OF Some] firstChild_size [OF Some]
      by (simp add: activePath.simps [of r])
  qed
qed

lemma addBreadcrumb_fuel_enough:
  "addBreadcrumb_fuel n (Some route) parentUrl breadcrumbs =
     (if length (activePath route) < n
      then Some (addBreadcrumb (Some route) parentUrl breadcrumbs) else None)"
proof (induction n arbitrary: route parentUrl breadcrumbs)
  case 0
  then show ?case by simp
next
  case (Suc n)
  show ?case
  proof (cases "firstChild route")
    case None
    then show ?thesis
      by (cases n) (simp_all add: addBreadcrumb.simps(2) activePath.simps [of route] Let_def)
  next
    case (Some c)
    then show ?thesis
      using Suc.IH [of c]
      by (simp add: addBreadcrumb.simps(2) activePath.simps [of route] Let_def)
  qed
qed

text \<open>C4: the recursion from any route tree returns, after exactly one call per node of
  the chain of first children and one call on the null child of the last node: with that
  many calls allowed the bounded recursion returns the list of \<open>addBreadcrumb\<close> (which
  is a total function of the tree), and with fewer it has not returned yet. The chain is
  no longer than the tree is large, and on the null route the recursion returns at once.\<close>

theorem addBreadcrumb_terminates:
  "addBreadcrumb_fuel (Suc (length (activePath route))) (Some route) parentUrl breadcrumbs =
     Some (addBreadcrumb (Some route) parentUrl breadcrumbs) \<and>
   addBreadcrumb_fuel (length (activePath route)) (Some route) parentUrl breadcrumbs = None \<and>
   addBreadcrumb_fuel (Suc 0) None parentUrl breadcrumbs = Some breadcrumbs \<and>
   length (activePath route) \<le> size route"
  by (simp add: addBreadcrumb_fuel_enough activePath_length_le_size)

section \<open>Only the active path matters\<close>

lemma trail_cong_view:
  "map (\<lambda>n. (route_url n, route_data n)) ns = map (\<lambda>n. (route_url n, route_data n)) ms \<Longrightarrow>
   trail parentUrl ns = trail parentUrl ms"
proof (induction ns arbitrary: ms parentUrl)
  case Nil
  then show ?case by simp
next
  case (Cons n ns)
  then obtain m ms' where ms: "ms = m # ms'" by (cases ms) auto
  with Cons.prems have h: "route_url n = route_url m" "route_data n = route_data m"
    and t: "map (\<lambda>n. (route_url n, route_data n)) ns = map (\<lambda>n. (route_url n, route_data n)) ms'"
    by simp_all
  from Cons.IH [OF t] show ?case
    by (simp add: ms h Let_def)
qed

lemma activePath_replaceAt_off_path:
  "\<exists>i\<in>set pos. i \<noteq> 0 \<Longrightarrow>
   map (\<lambda>n. (route_url n, route_data n)) (activePath (replaceAt pos new route)) =
   map (\<lambda>n. (route_url n, route_data n)) (activePath route)"
proof (induction pos arbitrary: route)
  case Nil
  then show ?case by simp
next
  case (Cons i pos)
  obtain u d cs where r: "route = ActivatedRouteSnapshot u d cs" by (cases route)
  show ?case
  proof (cases "i < length cs")
    case False
    then show ?thesis by (simp add: r)
  next
    case inside: True
    then obtain c cs' where cs: "cs = c # cs'" by (cases cs) auto
    show ?thesis
    proof (cases i)
      case 0
      with Cons.prems have "\<exists>i\<in>set pos. i \<noteq> 0" by simp
      from Cons.IH [OF this, of c] show ?thesis
        by (simp add: r cs 0 firstChild_def
            activePath.simps [of "ActivatedRouteSnapshot u d (c # cs')"]
            activePath.simps [of "ActivatedRouteSnapshot u d (replaceAt pos new c # cs')"])
    next
      case (Suc j)
      then show ?thesis
        using inside
        by (simp add: r cs firstChild_def
            activePath.simps [of "ActivatedRouteSnapshot u d (c # cs')"]
            activePath.simps [of "ActivatedRouteSnapshot u d (c # cs'[j := replaceAt pos new (cs' ! j)])"])
    qed
  qed
qed

text \<open>C5: the list depends on the tree only through the URL segments and the data of the
  nodes on the chain of first children: two trees whose chains agree on these give the same
  list, and replacing a subtree at a position off that chain (a position with an index
  other than 0) by any other tree gives the same list.\<close>

theorem addBreadcrumb_active_path_only:
  "(map (\<lambda>n. (route_url n, route_data n)) (activePath route1) =
      map (\<lambda>n. (route_url n, route_data n)) (activePath route2) \<longrightarrow>
    addBreadcrumb (Some route1) parentUrl breadcrumbs =
      addBreadcrumb (Some route2) parentUrl breadcrumbs) \<and>
   ((\<exists>i\<in>set pos. i \<noteq> 0) \<longrightarrow>
    addBreadcrumb (Some (replaceAt pos new route)) parentUrl breadcrumbs =
      addBreadcrumb (Some route) parentUrl breadcrumbs)"
  using trail_cong_view [of "activePath route1" "activePath route2" parentUrl]
    trail_cong_view [OF activePath_replaceAt_off_path, of pos parentUrl new route]
  by (simp add: addBreadcrumb_trail)

theorem addBreadcrumb_active_path_only_witness:
  "addBreadcrumb
     (Some (ActivatedRouteSnapshot [\<lparr>path = ''users'', parameters = []\<rparr>]
        [''breadcrumb'' \<mapsto> Val (JStr ''Users'')]
        [ActivatedRouteSnapshot [\<lparr>path = ''1'', parameters = []\<rparr>] Map.empty [],
         ActivatedRouteSnapshot [\<lparr>path = ''help'', parameters = []\<rparr>]
           [''breadcrumb'' \<mapsto> Val (JStr ''Help'')] []])) [] [] =
   addBreadcrumb
     (Some (ActivatedRouteSnapshot [\<lparr>path = ''users'', parameters = []\<rparr>]
        [''breadcrumb'' \<mapsto> Val (JStr ''Users'')]
        [ActivatedRouteSnapshot [\<lparr>path = ''1'', parameters = []\<rparr>] Map.empty []])) [] [] \<and>
   addBreadcrumb
     (Some (replaceAt [0, 1]
        (ActivatedRouteSnapshot [\<lparr>path = ''posts'', parameters = []\<rparr>]
           [''breadcrumb'' \<mapsto> Val (JStr ''Posts'')] [])
        (ActivatedRouteSnapshot [] Map.empty
           [ActivatedRouteSnapshot [\<lparr>path = ''users'', parameters = []\<rparr>]
              [''breadcrumb'' \<mapsto> Val (JStr ''Users'')]
              [ActivatedRouteSnapshot [\<lparr>path = ''1'', parameters = []\<rparr>]
                 [''breadcrumb'' \<mapsto> Val (JStr ''Leanne Graham'')] [],
               ActivatedRouteSnapshot [\<lparr>path = ''help'', parameters = []\<rparr>]
                 [''breadcrumb'' \<mapsto> Val (JStr ''Help'')] []]])))
     [] [] =
   addBreadcrumb
     (Some (ActivatedRouteSnapshot [] Map.empty
           [ActivatedRouteSnapshot [\<lparr>path = ''users'', parameters = []\<rparr>]
              [''breadcrumb'' \<mapsto> Val (JStr ''Users'')]
              [ActivatedRouteSnapshot [\<lparr>path = ''1'', parameters = []\<rparr>]
                 [''breadcrumb'' \<mapsto> Val (JStr ''Leanne Graham'')] [],
               ActivatedRouteSnapshot [\<lparr>path = ''help'', parameters = []\<rparr>]
                 [''breadcrumb'' \<mapsto> Val (JStr ''Help'')] []]]))
     [] [] \<and>
   replaceAt [0, 1]
        (ActivatedRouteSnapshot [\<lparr>path = ''posts'', parameters = []\<rparr>]
           [''breadcrumb'' \<mapsto> Val (JStr ''Posts'')] [])
        (ActivatedRouteSnapshot [] Map.empty
           [ActivatedRouteSnapshot [\<lparr>path = ''users'', parameters = []\<rparr>]
              [''breadcrumb'' \<mapsto> Val (JStr ''Users'')]
              [ActivatedRouteSnapshot [\<lparr>path = ''1'', parameters = []\<rparr>]
                 [''breadcrumb'' \<mapsto> Val (JStr ''Leanne Graham'')] [],
               ActivatedRouteSnapshot [\<lparr>path = ''help'', parameters = []\<rparr>]
                 [''breadcrumb'' \<mapsto> Val (JStr ''Help'')] []]]) =
     ActivatedRouteSnapshot [] Map.empty
           [ActivatedRouteSnapshot [\<lparr>path = ''users'', parameters = []\<rparr>]
              [''breadcrumb'' \<mapsto> Val (JStr ''Users'')]
              [ActivatedRouteSnapshot [\<lparr>path = ''1'', parameters = []\<rparr>]
                 [''breadcrumb'' \<mapsto> Val (JStr ''Leanne Graham'')] [],
               ActivatedRouteSnapshot [\<lparr>path = ''posts'', parameters = []\<rparr>]
                 [''breadcrumb'' \<mapsto> Val (JStr ''Posts'')] []]]"
  using addBreadcrumb_active_path_only
    [of "ActivatedRouteSnapshot [\<lparr>path = ''users'', parameters = []\<rparr>]
           [''breadcrumb'' \<mapsto> Val (JStr ''Users'')]
           [ActivatedRouteSnapshot [\<lparr>path = ''1'', parameters = []\<rparr>] Map.empty [],
            ActivatedRouteSnapshot [\<lparr>path = ''help'', parameters = []\<rparr>]
              [''breadcrumb'' \<mapsto> Val (JStr ''Help'')] []]"
        "ActivatedRouteSnapshot [\<lparr>path = ''users'', parameters = []\<rparr>]
           [''breadcrumb'' \<mapsto> Val (JStr ''Users'')]
           [ActivatedRouteSnapshot [\<lparr>path = ''1'', parameters = []\<rparr>] Map.empty []]"
        "[]" "[]" "[0, 1]"
        "ActivatedRouteSnapshot [\<lparr>path = ''posts'', parameters = []\<rparr>]
           [''breadcrumb'' \<mapsto> Val (JStr ''Posts'')] []"
        "ActivatedRouteSnapshot [] Map.empty
           [ActivatedRouteSnapshot [\<lparr>path = ''users'', parameters = []\<rparr>]
              [''breadcrumb'' \<mapsto> Val (JStr ''Users'')]
              [ActivatedRouteSnapshot [\<lparr>path = ''1'', parameters = []\<rparr>]
                 [''breadcrumb'' \<mapsto> Val (JStr ''Leanne Graham'')] [],
               ActivatedRouteSnapshot [\<lparr>path = ''help'', parameters = []\<rparr>]
                 [''breadcrumb'' \<mapsto> Val (JStr ''Help'')] []]]"]
  by (simp add: activePath.simps firstChild_def)

section \<open>The list for a fully annotated path\<close>

lemma trail_length_all_truthy:
  "\<forall>n\<in>set ns. truthy (property (route_data n) ''breadcrumb'') \<Longrightarrow>
   length (trail parentUrl ns) = length ns"
  by (induction ns arbitrary: parentUrl) (simp_all add: Let_def)

lemma trail_nth_all_truthy:
  "\<forall>n\<in>set ns. truthy (property (route_data n) ''breadcrumb'') \<Longrightarrow> i < length ns \<Longrightarrow>
   trail parentUrl ns ! i =
     \<lparr>label = getLabel (route_data (ns ! i)),
      url = ''/'' @ join (parentUrl @ concat (map (\<lambda>n. map path (route_url n)) (take (Suc i) ns)))
                      ''/''\<rparr>"
proof (induction ns arbitrary: parentUrl i)
  case Nil
  then show ?case by simp
next
  case (Cons n ns)
  show ?case
  proof (cases i)
    case 0
    with Cons.prems show ?thesis by (simp add: Let_def)
  next
    case (Suc j)
    with Cons.prems have "\<forall>n\<in>set ns. truthy (property (route_data n) ''breadcrumb'')"
      and "j < length ns" by simp_all
    from Cons.IH [OF this, of "parentUrl @ map path (route_url n)"] Cons.prems(1)
    show ?thesis by (simp add: Suc Let_def)
  qed
qed

text \<open>C1, as the code has it: when the breadcrumb entry of every node on the chain of first
  children is truthy, the list produced from the root with an empty parent URL and an empty
  accumulator has one element per node of the chain, in root-to-leaf order: the element at
  index i has the label of the i-th node, and its URL is '/' followed by the '/'-joined
  list of the path segments of the nodes 0 to i of the chain.\<close>

theorem addBreadcrumb_full_path:
  assumes "\<forall>n\<in>set (activePath root). truthy (property (route_data n) ''breadcrumb'')"
  shows "length (addBreadcrumb (Some root) [] []) = length (activePath root) \<and>
         (\<forall>i<length (activePath root).
            addBreadcrumb (Some root) [] [] ! i =
              \<lparr>label = getLabel (route_data (activePath root ! i)),
               url = ''/'' @
                 join (concat (map (\<lambda>n. map path (route_url n)) (take (Suc i) (activePath root))))
                   ''/''\<rparr>)"
  using trail_length_all_truthy [OF assms, of "[]"] trail_nth_all_truthy [OF assms, of _ "[]"]
  by (simp add: addBreadcrumb_trail)

theorem addBreadcrumb_full_path_witness:
  "activePath
     (ActivatedRouteSnapshot [\<lparr>path = ''users'', parameters = []\<rparr>]
        [''breadcrumb'' \<mapsto> Val (JStr ''Users'')]
        [ActivatedRouteSnapshot [\<lparr>path = ''1'', parameters = []\<rparr>]
           [''breadcrumb'' \<mapsto> Fn (\<lambda>d. case d ''user'' of None \<Rightarrow> JUndefined | Some v \<Rightarrow> v),
            ''user'' \<mapsto> Val (JStr ''Leanne Graham'')] []]) =
     [ActivatedRouteSnapshot [\<lparr>path = ''users'', parameters = []\<rparr>]
        [''breadcrumb'' \<mapsto> Val (JStr ''Users'')]
        [ActivatedRouteSnapshot [\<lparr>path = ''1'', parameters = []\<rparr>]
           [''breadcrumb'' \<mapsto> Fn (\<lambda>d. case d ''user'' of None \<Rightarrow> JUndefined | Some v \<Rightarrow> v),
            ''user'' \<mapsto> Val (JStr ''Leanne Graham'')] []],
      ActivatedRouteSnapshot [\<lparr>path = ''1'', parameters = []\<rparr>]
           [''breadcrumb'' \<mapsto> Fn (\<lambda>d. case d ''user'' of None \<Rightarrow> JUndefined | Some v \<Rightarrow> v),
            ''user'' \<mapsto> Val (JStr ''Leanne Graham'')] []] \<and>
   length (addBreadcrumb
     (Some (ActivatedRouteSnapshot [\<lparr>path = ''users'', parameters = []\<rparr>]
        [''breadcrumb'' \<mapsto> Val (JStr ''Users'')]
        [ActivatedRouteSnapshot [\<lparr>path = ''1'', parameters = []\<rparr>]
           [''breadcrumb'' \<mapsto> Fn (\<lambda>d. case d ''user'' of None \<Rightarrow> JUndefined | Some v \<Rightarrow> v),
            ''user'' \<mapsto> Val (JStr ''Leanne Graham'')] []])) [] []) = 2 \<and>
   addBreadcrumb
     (Some (ActivatedRouteSnapshot [\<lparr>path = ''users'', parameters = []\<rparr>]
        [''breadcrumb'' \<mapsto> Val (JStr ''Users'')]
        [ActivatedRouteSnapshot [\<lparr>path = ''1'', parameters = []\<rparr>]
           [''breadcrumb'' \<mapsto> Fn (\<lambda>d. case d ''user'' of None \<Rightarrow> JUndefined | Some v \<Rightarrow> v),
            ''user'' \<mapsto> Val (JStr ''Leanne Graham'')] []])) [] [] ! 0 =
     \<lparr>label = JStr ''Users'', url = ''/users''\<rparr> \<and>
   addBreadcrumb
     (Some (ActivatedRouteSnapshot [\<lparr>path = ''users'', parameters = []\<rparr>]
        [''breadcrumb'' \<mapsto> Val (JStr ''Users'')]
        [ActivatedRouteSnapshot [\<lparr>path = ''1'', parameters = []\<rparr>]
           [''breadcrumb'' \<mapsto> Fn (\<lambda>d. case d ''user'' of None \<Rightarrow> JUndefined | Some v \<Rightarrow> v),
            ''user'' \<mapsto> Val (JStr ''Leanne Graham'')] []])) [] [] ! 1 =
     \<lparr>label = JStr ''Leanne Graham'', url = ''/users/1''\<rparr>"
proof -
  let ?leaf = "ActivatedRouteSnapshot [\<lparr>path = ''1'', parameters = []\<rparr>]
           [''breadcrumb'' \<mapsto> Fn (\<lambda>d. case d ''user'' of None \<Rightarrow> JUndefined | Some v \<Rightarrow> v),
            ''user'' \<mapsto> Val (JStr ''Leanne Graham'')] []"
  let ?root = "ActivatedRouteSnapshot [\<lparr>path = ''users'', parameters = []\<rparr>]
        [''breadcrumb'' \<mapsto> Val (JStr ''Users'')] [?leaf]"
  have p: "activePath ?root = [?root, ?leaf]"
    by (simp add: activePath.simps firstChild_def)
  have h: "\<forall>n\<in>set (activePath ?root). truthy (property (route_data n) ''breadcrumb'')"
    by (simp add: p property_def)
  note t = addBreadcrumb_full_path [OF h]
  from t have "length (addBreadcrumb (Some ?root) [] []) = 2"
    by (simp add: p)
  moreover from t [THEN conjunct2, THEN spec, of 0]
  have "addBreadcrumb (Some ?root) [] [] ! 0 =
              \<lparr>label = getLabel (route_data ?root), url = ''/'' @ join [''users''] ''/''\<rparr>"
    by (simp add: p)
  moreover from t [THEN conjunct2, THEN spec, of 1]
  have "addBreadcrumb (Some ?root) [] [] ! 1 =
              \<lparr>label = getLabel (route_data ?leaf), url = ''/'' @ join [''users'', ''1''] ''/''\<rparr>"
    by (simp add: p)
  ultimately have "length (addBreadcrumb (Some ?root) [] []) = 2"
    and "addBreadcrumb (Some ?root) [] [] ! 0 =
              \<lparr>label = getLabel (route_data ?root), url = ''/'' @ join [''users''] ''/''\<rparr>"
    and "addBreadcrumb (Some ?root) [] [] ! 1 =
              \<lparr>label = getLabel (route_data ?leaf), url = ''/'' @ join [''users'', ''1''] ''/''\<rparr>"
    by simp_all
  with p show ?thesis
    by (simp add: getLabel_def property_def plain_def)
qed

text \<open>C1 as it is written fails on two counts. A node can carry a breadcrumb entry that is
  falsy: the single node below carries the empty string, the chain has one node, and the
  list is empty. And the URL of an element starts with a '/' that the '/'-joined
  concatenation of the segments does not have: for the segment list [home] the join is
  home and the URL is /home.\<close>

theorem addBreadcrumb_full_path_counterexample:
  "activePath (ActivatedRouteSnapshot [\<lparr>path = ''home'', parameters = []\<rparr>]
                 [''breadcrumb'' \<mapsto> Val (JStr [])] []) =
     [ActivatedRouteSnapshot [\<lparr>path = ''home'', parameters = []\<rparr>]
                 [''breadcrumb'' \<mapsto> Val (JStr [])] []] \<and>
   route_data (ActivatedRouteSnapshot [\<lparr>path = ''home'', parameters = []\<rparr>]
                 [''breadcrumb'' \<mapsto> Val (JStr [])] []) ''breadcrumb'' = Some (Val (JStr [])) \<and>
   addBreadcrumb (Some (ActivatedRouteSnapshot [\<lparr>path = ''home'', parameters = []\<rparr>]
                 [''breadcrumb'' \<mapsto> Val (JStr [])] [])) [] [] = [] \<and>
   addBreadcrumb (Some (ActivatedRouteSnapshot [\<lparr>path = ''home'', parameters = []\<rparr>]
                 [''breadcrumb'' \<mapsto> Val (JStr ''Home'')] [])) [] [] =
     [\<lparr>label = JStr ''Home'', url = ''/home''\<rparr>] \<and>
   join (concat [map path [\<lparr>path = ''home'', parameters = []\<rparr>]]) ''/'' = ''home'' \<and>
   ''/home'' \<noteq> ''home''"
  by (simp add: activePath.simps firstChild_def addBreadcrumb.simps(2) property_def getLabel_def)

section \<open>Navigation events and subscribers\<close>

lemma run_current:
  "current (breadcrumbs_subject (run as service)) =
     (case lastNavigationEnd as of
        None \<Rightarrow> current (breadcrumbs_subject service)
      | Some root \<Rightarrow> addBreadcrumb (Some root) [] [])"
proof (induction as arbitrary: service)
  case Nil
  then show ?case by simp
next
  case (Cons a as)
  show ?case
  proof (cases a)
    case (RouterEvent event root)
    then show ?thesis
      by (simp add: Cons.IH onRouterEvent_def next_value_def Let_def split: option.splits)
  next
    case (Subscribe k)
    then show ?thesis
      by (simp add: Cons.IH subscribe_def split: option.splits)
  qed
qed

text \<open>C6: a router event that is not a navigation completion leaves the service as it is
  (current list and deliveries); a subscription leaves the current list as it is; a
  navigation completion makes the list built from the router's snapshot root the current
  one and delivers it to every observer. So after any trace the current list is the one
  built from the snapshot root of the last navigation completion, and the initial one when
  there was none.\<close>

theorem breadcrumbs_change_only_on_NavigationEnd:
  "(event \<noteq> NavigationEnd \<longrightarrow> onRouterEvent event root service = service) \<and>
   current (breadcrumbs_subject (step (Subscribe k) service)) =
     current (breadcrumbs_subject service) \<and>
   current (breadcrumbs_subject (onRouterEvent NavigationEnd root service)) =
     addBreadcrumb (Some root) [] [] \<and>
   delivered (breadcrumbs_subject (onRouterEvent NavigationEnd root service)) =
     delivered (breadcrumbs_subject service) @
       map (\<lambda>k. (k, addBreadcrumb (Some root) [] [])) (observers (breadcrumbs_subject service)) \<and>
   current (breadcrumbs_subject (run as service)) =
     (case lastNavigationEnd as of
        None \<Rightarrow> current (breadcrumbs_subject service)
      | Some r \<Rightarrow> addBreadcrumb (Some r) [] [])"
  by (simp add: run_current onRouterEvent_def next_value_def subscribe_def Let_def)

theorem breadcrumbs_change_only_on_NavigationEnd_witness:
  "onRouterEvent NavigationStart
     (ActivatedRouteSnapshot [\<lparr>path = ''home'', parameters = []\<rparr>]
        [''breadcrumb'' \<mapsto> Val (JStr ''Home'')] [])
     (run [Subscribe 7] newBreadcrumbService) =
   run [Subscribe 7] newBreadcrumbService \<and>
   current (breadcrumbs_subject (onRouterEvent NavigationEnd
     (ActivatedRouteSnapshot [\<lparr>path = ''home'', parameters = []\<rparr>]
        [''breadcrumb'' \<mapsto> Val (JStr ''Home'')] [])
     (run [Subscribe 7] newBreadcrumbService))) =
   [\<lparr>label = JStr ''Home'', url = ''/home''\<rparr>] \<and>
   delivered (breadcrumbs_subject (onRouterEvent NavigationEnd
     (ActivatedRouteSnapshot [\<lparr>path = ''home'', parameters = []\<rparr>]
        [''breadcrumb'' \<mapsto> Val (JStr ''Home'')] [])
     (run [Subscribe 7] newBreadcrumbService))) =
   [(7, []), (7, [\<lparr>label = JStr ''Home'', url = ''/home''\<rparr>])]"
  using breadcrumbs_change_only_on_NavigationEnd
    [of NavigationStart
        "ActivatedRouteSnapshot [\<lparr>path = ''home'', parameters = []\<rparr>]
           [''breadcrumb'' \<mapsto> Val (JStr ''Home'')] []"
        "run [Subscribe 7] newBreadcrumbService" 7 "[]"]
  by (simp add: newBreadcrumbService_def newBehaviorSubject_def subscribe_def
      addBreadcrumb.simps(2) firstChild_def property_def getLabel_def)

lemma run_without_NavigationEnd:
  "lastNavigationEnd as = None \<Longrightarrow>
   current (breadcrumbs_subject service) = v \<Longrightarrow>
   breadcrumbs_subject (run as service) =
     (breadcrumbs_subject service)
       \<lparr>observers := observers (breadcrumbs_subject service) @ subscribers as,
        delivered :=
          delivered (breadcrumbs_subject service) @ map (\<lambda>k. (k, v)) (subscribers as)\<rparr>"
proof (induction as arbitrary: service)
  case Nil
  then show ?case by simp
next
  case (Cons a as)
  show ?case
  proof (cases a)
    case (RouterEvent event root)
    with Cons.prems have "event \<noteq> NavigationEnd" and "lastNavigationEnd as = None"
      by (auto split: option.splits if_splits)
    with Cons.IH [of service] Cons.prems(2) show ?thesis
      by (simp add: RouterEvent onRouterEvent_def)
  next
    case (Subscribe k)
    with Cons.prems have n: "lastNavigationEnd as = None" by simp
    have c: "current (breadcrumbs_subject (step a service)) = v"
      using Cons.prems(2) by (simp add: Subscribe subscribe_def)
    from Cons.IH [OF n c] Cons.prems(2) show ?thesis
      by (simp add: Subscribe subscribe_def)
  qed
qed

lemma lastNavigationEnd_None_iff:
  "lastNavigationEnd as = None \<longleftrightarrow> (\<forall>root. RouterEvent NavigationEnd root \<notin> set as)"
proof (induction as)
  case Nil
  then show ?case by simp
next
  case (Cons a as)
  then show ?case
    by (cases a) (auto split: option.splits)
qed

text \<open>C9: the subject is created holding the empty list, and as long as no navigation has
  completed it still holds it: after any trace of router events and subscriptions without
  a navigation completion, the current value is the empty list, every delivery made so
  far was of the empty list, one to each subscriber at its subscription, and an observer
  that subscribes now is delivered the empty list at once.\<close>

theorem subscribers_first_receive_empty_list:
  assumes "\<forall>root. RouterEvent NavigationEnd root \<notin> set as"
  shows "current (breadcrumbs_subject newBreadcrumbService) = [] \<and>
         current (breadcrumbs_subject (run as newBreadcrumbService)) = [] \<and>
         delivered (breadcrumbs_subject (run as newBreadcrumbService)) =
           map (\<lambda>k. (k, [])) (subscribers as) \<and>
         delivered (breadcrumbs_subject (step (Subscribe k) (run as newBreadcrumbService))) =
           delivered (breadcrumbs_subject (run as newBreadcrumbService)) @ [(k, [])]"
proof -
  from assms have "lastNavigationEnd as = None"
    by (simp add: lastNavigationEnd_None_iff)
  from run_without_NavigationEnd [OF this, of newBreadcrumbService "[]"]
  show ?thesis
    by (simp add: newBreadcrumbService_def newBehaviorSubject_def subscribe_def)
qed

theorem subscribers_first_receive_empty_list_witness:
  "delivered (breadcrumbs_subject (run
     [Subscribe 1,
      RouterEvent NavigationStart (ActivatedRouteSnapshot [] Map.empty []),
      Subscribe 2] newBreadcrumbService)) = [(1, []), (2, [])] \<and>
   delivered (breadcrumbs_subject (step (Subscribe 3) (run
     [Subscribe 1,
      RouterEvent NavigationStart (ActivatedRouteSnapshot [] Map.empty []),
      Subscribe 2] newBreadcrumbService))) = [(1, []), (2, []), (3, [])]"
  using subscribers_first_receive_empty_list
    [of "[Subscribe 1,
      RouterEvent NavigationStart (ActivatedRouteSnapshot [] Map.empty []),
      Subscribe 2]" 3]
  by simp

section \<open>What the walk writes\<close>

lemma push_preserves:
  "push a x h = Some h' \<Longrightarrow>
   snapshots h' = snapshots h \<and> (\<forall>b. b \<noteq> a \<longrightarrow> arrays h' b = arrays h b)"
  by (auto simp: push_def split: option.splits)

lemma getLabel_heap_store:
  "getLabel_heap code r h = Some (l, h1) \<Longrightarrow> h1 = h \<or> (\<exists>f. h1 = snd (code f r h))"
proof -
  assume l: "getLabel_heap code r h = Some (l, h1)"
  then obtain ob where ob: "snapshots h r = Some ob"
    by (auto simp: getLabel_heap_def split: option.splits)
  show ?thesis
  proof (cases "property_heap (object_data ob) ''breadcrumb''")
    case (Plain v)
    with l ob show ?thesis by (simp add: getLabel_heap_def)
  next
    case (Function f)
    with l ob have "code f r h = (l, h1)" by (simp add: getLabel_heap_def)
    then have "h1 = snd (code f r h)" by simp
    then show ?thesis by blast
  qed
qed

lemma addBreadcrumb_heap_Some:
  assumes "addBreadcrumb_heap code (Suc n) (Some r) parentUrl a h = Some h'"
  obtains ob h2 ob' where
    "snapshots h r = Some ob"
    "(if truthy_stored (property_heap (object_data ob) ''breadcrumb'')
      then (case getLabel_heap code r h of
              None \<Rightarrow> None
            | Some (l, h1) \<Rightarrow>
                push a \<lparr>label = l,
                  url = ''/'' @ join (parentUrl @ map path (object_url ob)) ''/''\<rparr> h1)
      else Some h) = Some h2"
    "snapshots h2 r = Some ob'"
    "addBreadcrumb_heap code n (firstChild_heap ob')
       (parentUrl @ map path (object_url ob)) a h2 = Some h'"
proof -
  from assms obtain ob where ob: "snapshots h r = Some ob"
    by (cases "snapshots h r") simp_all
  let ?X = "if truthy_stored (property_heap (object_data ob) ''breadcrumb'')
      then (case getLabel_heap code r h of
              None \<Rightarrow> None
            | Some (l, h1) \<Rightarrow>
                push a \<lparr>label = l,
                  url = ''/'' @ join (parentUrl @ map path (object_url ob)) ''/''\<rparr> h1)
      else Some h"
  from assms have run:
    "(case ?X of
        None \<Rightarrow> None
      | Some h2 \<Rightarrow>
          (case snapshots h2 r of
             None \<Rightarrow> None
           | Some route' \<Rightarrow>
               addBreadcrumb_heap code n (firstChild_heap route')
                 (parentUrl @ map path (object_url ob)) a h2)) = Some h'"
    by (simp only: addBreadcrumb_heap.simps ob option.case Let_def)
  then obtain h2 where h2: "?X = Some h2"
    by (cases ?X) (simp_all only: option.case option.distinct)
  from run have run2:
    "(case snapshots h2 r of
        None \<Rightarrow> None
      | Some route' \<Rightarrow>
          addBreadcrumb_heap code n (firstChild_heap route')
            (parentUrl @ map path (object_url ob)) a h2) = Some h'"
    by (simp only: h2 option.case)
  then obtain ob' where ob': "snapshots h2 r = Some ob'"
    by (cases "snapshots h2 r") (simp_all only: option.case option.distinct)
  from run2 have "addBreadcrumb_heap code n (firstChild_heap ob')
       (parentUrl @ map path (object_url ob)) a h2 = Some h'"
    by (simp only: ob' option.case)
  with ob h2 ob' show ?thesis by (rule that)
qed

lemma addBreadcrumb_heap_preserves:
  assumes code: "\<And>f r h. obs (snd (code f r h)) = obs h"
    and push: "\<And>x h h'. push a x h = Some h' \<Longrightarrow> obs h' = obs h"
  shows "addBreadcrumb_heap code n route parentUrl a h = Some h' \<Longrightarrow> obs h' = obs h"
proof (induction n arbitrary: route parentUrl h)
  case 0
  then show ?case by simp
next
  case (Suc n)
  show ?case
  proof (cases route)
    case None
    with Suc.prems show ?thesis by simp
  next
    case (Some r)
    with Suc.prems have "addBreadcrumb_heap code (Suc n) (Some r) parentUrl a h = Some h'"
      by simp
    then obtain ob h2 ob' where
      ob: "snapshots h r = Some ob"
      and h2: "(if truthy_stored (property_heap (object_data ob) ''breadcrumb'')
                then (case getLabel_heap code r h of
                        None \<Rightarrow> None
                      | Some (l, h1) \<Rightarrow>
                          push a \<lparr>label = l,
                            url = ''/'' @ join (parentUrl @ map path (object_url ob)) ''/''\<rparr> h1)
                else Some h) = Some h2"
      and rec: "addBreadcrumb_heap code n (firstChild_heap ob')
                  (parentUrl @ map path (object_url ob)) a h2 = Some h'"
      by (rule addBreadcrumb_heap_Some)
    have "obs h2 = obs h"
    proof (cases "truthy_stored (property_heap (object_data ob) ''breadcrumb'')")
      case False
      with h2 show ?thesis by simp
    next
      case True
      with h2 obtain l h1 where
        l: "getLabel_heap code r h = Some (l, h1)"
        and p: "push a \<lparr>label = l,
                  url = ''/'' @ join (parentUrl @ map path (object_url ob)) ''/''\<rparr> h1 = Some h2"
        by (auto split: option.splits)
      from getLabel_heap_store [OF l] code have "obs h1 = obs h" by auto
      with push [OF p] show ?thesis by simp
    qed
    with Suc.IH [OF rec] show ?thesis by simp
  qed
qed

lemma those_map_Nil: "those (map g rs) = Some [] \<Longrightarrow> rs = []"
  by (cases rs) (auto split: option.splits)

lemma those_map_Cons:
  "those (map g rs) = Some (c # cs) \<Longrightarrow> \<exists>rc rs'. rs = rc # rs' \<and> g rc = Some c"
  by (cases rs) (auto split: option.splits)

lemma tree_at_arrays_update: "tree_at sem depth (h\<lparr>arrays := f\<rparr>) = tree_at sem depth h"
proof (induction depth)
  case 0
  show ?case by (rule ext) simp
next
  case (Suc depth)
  show ?case by (rule ext) (simp add: Suc.IH split: option.splits)
qed

lemma property_data_of:
  "property (data_of sem d) k =
     (case property_heap d k of Plain v \<Rightarrow> Val v | Function f \<Rightarrow> Fn (sem f))"
  by (simp add: property_def property_heap_def data_of_def split: option.splits stored.splits)

lemma plain_data_of: "plain (data_of sem d) = plain_heap d"
  by (rule ext) (simp add: plain_def plain_heap_def data_of_def split: option.splits stored.splits)

lemma truthy_data_of:
  "truthy (property (data_of sem d) k) = truthy_stored (property_heap d k)"
  by (simp add: property_data_of split: stored.splits)

lemma getLabel_heap_pure:
  assumes "\<And>f r h ob. snapshots h r = Some ob \<Longrightarrow>
             code f r h = (sem f (plain_heap (object_data ob)), h)"
    and "snapshots h r = Some ob"
  shows "getLabel_heap code r h = Some (getLabel (data_of sem (object_data ob)), h)"
  using assms(1) [OF assms(2)]
  by (simp add: getLabel_heap_def assms(2) getLabel_def property_data_of plain_data_of
      split: stored.splits)

lemma addBreadcrumb_heap_refines:
  assumes pure: "\<And>f r h ob. snapshots h r = Some ob \<Longrightarrow>
             code f r h = (sem f (plain_heap (object_data ob)), h)"
  shows "tree_at sem depth h r = Some t \<Longrightarrow> arrays h a = Some bs \<Longrightarrow>
         length (activePath t) < n \<Longrightarrow>
         addBreadcrumb_heap code n (Some r) parentUrl a h =
           Some (h\<lparr>arrays := (arrays h)(a \<mapsto> addBreadcrumb (Some t) parentUrl bs)\<rparr>)"
proof (induction n arbitrary: depth r t parentUrl bs h)
  case 0
  then show ?case by simp
next
  case (Suc n)
  from Suc.prems(1) obtain d where depth: "depth = Suc d" by (cases depth) simp_all
  with Suc.prems(1) obtain ob cs where
    ob: "snapshots h r = Some ob"
    and kids: "those (map (tree_at sem d h) (object_children ob)) = Some cs"
    and t: "t = ActivatedRouteSnapshot (object_url ob) (data_of sem (object_data ob)) cs"
    by (auto split: option.splits)
  let ?u = "object_url ob"
  let ?d = "data_of sem (object_data ob)"
  let ?routeUrl = "parentUrl @ map path ?u"
  let ?bs' = "if truthy (property ?d ''breadcrumb'')
              then bs @ [\<lparr>label = getLabel ?d, url = ''/'' @ join ?routeUrl ''/''\<rparr>] else bs"
  let ?h' = "h\<lparr>arrays := (arrays h)(a \<mapsto> ?bs')\<rparr>"
  have same: "h\<lparr>arrays := (arrays h)(a \<mapsto> bs)\<rparr> = h"
    using Suc.prems(2) by (simp add: map_upd_triv)
  have pushed:
    "(if truthy_stored (property_heap (object_data ob) ''breadcrumb'')
      then (case getLabel_heap code r h of
              None \<Rightarrow> None
            | Some (l, h1) \<Rightarrow> push a \<lparr>label = l, url = ''/'' @ join ?routeUrl ''/''\<rparr> h1)
      else Some h) = Some ?h'"
    using Suc.prems(2)
    by (simp add: getLabel_heap_pure [where code = code and sem = sem, OF pure ob]
        truthy_data_of push_def same)
  have arr: "arrays ?h' a = Some ?bs'" by simp
  have snap: "snapshots ?h' r = Some ob" by (simp add: ob)
  have step: "addBreadcrumb_heap code (Suc n) (Some r) parentUrl a h =
                addBreadcrumb_heap code n (firstChild_heap ob) ?routeUrl a ?h'"
  proof -
    have "addBreadcrumb_heap code (Suc n) (Some r) parentUrl a h =
            (case (if truthy_stored (property_heap (object_data ob) ''breadcrumb'')
                   then (case getLabel_heap code r h of
                           None \<Rightarrow> None
                         | Some (l, h1) \<Rightarrow>
                             push a \<lparr>label = l, url = ''/'' @ join ?routeUrl ''/''\<rparr> h1)
                   else Some h) of
               None \<Rightarrow> None
             | Some h2 \<Rightarrow>
                 (case snapshots h2 r of
                    None \<Rightarrow> None
                  | Some route' \<Rightarrow>
                      addBreadcrumb_heap code n (firstChild_heap route') ?routeUrl a h2))"
      by (simp add: ob Let_def)
    also have "\<dots> = (case snapshots ?h' r of
                    None \<Rightarrow> None
                  | Some route' \<Rightarrow>
                      addBreadcrumb_heap code n (firstChild_heap route') ?routeUrl a ?h')"
      by (simp only: pushed option.case)
    also have "\<dots> = addBreadcrumb_heap code n (firstChild_heap ob) ?routeUrl a ?h'"
      by (simp only: snap option.case)
    finally show ?thesis .
  qed
  show ?case
  proof (cases cs)
    case Nil
    with kids have "object_children ob = []" by (simp add: those_map_Nil)
    then have fc: "firstChild_heap ob = None"
      by (simp add: firstChild_heap_def)
    from Suc.prems(3) obtain m where n: "n = Suc m"
      by (cases n) (simp_all add: t activePath.simps [of "ActivatedRouteSnapshot ?u ?d cs"])
    note step
    also have "addBreadcrumb_heap code n (firstChild_heap ob) ?routeUrl a ?h' = Some ?h'"
      by (simp only: fc n addBreadcrumb_heap.simps)
    also have "?h' = h\<lparr>arrays := (arrays h)(a \<mapsto> addBreadcrumb (Some t) parentUrl bs)\<rparr>"
      by (simp add: t Nil addBreadcrumb.simps(2) firstChild_def Let_def)
    finally show ?thesis .
  next
    case (Cons c cs')
    with those_map_Cons [of "tree_at sem d h" "object_children ob" c cs'] kids
    obtain rc rs where rc: "object_children ob = rc # rs" and treec: "tree_at sem d h rc = Some c"
      by auto
    then have fc: "firstChild_heap ob = Some rc"
      by (simp add: firstChild_heap_def)
    have treec': "tree_at sem d ?h' rc = Some c"
      using treec by (simp only: tree_at_arrays_update)
    have len: "length (activePath c) < n"
      using Suc.prems(3)
      by (simp add: t Cons firstChild_def
          activePath.simps [of "ActivatedRouteSnapshot ?u ?d (c # cs')"])
    note step
    also have "addBreadcrumb_heap code n (firstChild_heap ob) ?routeUrl a ?h' =
            Some (?h'\<lparr>arrays := (arrays ?h')(a \<mapsto> addBreadcrumb (Some c) ?routeUrl ?bs')\<rparr>)"
      unfolding fc by (rule Suc.IH [OF treec' arr len])
    also have "?h'\<lparr>arrays := (arrays ?h')(a \<mapsto> addBreadcrumb (Some c) ?routeUrl ?bs')\<rparr> =
               h\<lparr>arrays := (arrays h)(a \<mapsto> addBreadcrumb (Some t) parentUrl bs)\<rparr>"
      by (simp add: t Cons addBreadcrumb.simps(2) [of "ActivatedRouteSnapshot ?u ?d (c # cs')"]
          firstChild_def Let_def)
    finally show ?thesis .
  qed
qed

lemma data_of_simps:
  "data_of sem Map.empty = Map.empty"
  "data_of sem (d(k \<mapsto> Plain v)) = (data_of sem d)(k \<mapsto> Val v)"
  "data_of sem (d(k \<mapsto> Function f)) = (data_of sem d)(k \<mapsto> Fn (sem f))"
  by (rule ext; simp add: data_of_def)+

text \<open>C7, as the code has it: the walk itself writes only the array it is given, and the
  route tree is written during a run exactly when a label function that the run calls
  writes to it. If no label function writes to a snapshot object, then after every run
  that returns every snapshot object is as it was before. If the label functions write
  nothing at all, every array other than the one given is as it was before, too. And if
  every label function is a function of the plain properties of the bag it is handed and
  writes nothing, then on a store that holds a route tree the run does return, after one
  call per node of the chain of first children and one on the null child: the store it
  returns is the store it started from with the list of \<open>addBreadcrumb\<close> in the array,
  and it still holds the same tree at the same reference.\<close>

theorem addBreadcrumb_leaves_route_tree:
  "((\<forall>f r s. snapshots (snd (code f r s)) = snapshots s) \<and>
    addBreadcrumb_heap code n route parentUrl a h = Some h' \<longrightarrow>
      snapshots h' = snapshots h) \<and>
   ((\<forall>f r s. snd (code f r s) = s) \<and>
    addBreadcrumb_heap code n route parentUrl a h = Some h' \<longrightarrow>
      snapshots h' = snapshots h \<and> (\<forall>b. b \<noteq> a \<longrightarrow> arrays h' b = arrays h b)) \<and>
   ((\<forall>f r s ob. snapshots s r = Some ob \<longrightarrow>
        code f r s = (sem f (plain_heap (object_data ob)), s)) \<and>
    tree_at sem depth h r0 = Some t \<and> arrays h a = Some bs \<longrightarrow>
      addBreadcrumb_heap code (Suc (length (activePath t))) (Some r0) parentUrl a h =
        Some (h\<lparr>arrays := (arrays h)(a \<mapsto> addBreadcrumb (Some t) parentUrl bs)\<rparr>) \<and>
      tree_at sem depth (h\<lparr>arrays := (arrays h)(a \<mapsto> addBreadcrumb (Some t) parentUrl bs)\<rparr>) r0 =
        Some t)"
proof (intro conjI impI)
  assume "(\<forall>f r s. snapshots (snd (code f r s)) = snapshots s) \<and>
          addBreadcrumb_heap code n route parentUrl a h = Some h'"
  then have c: "\<And>f r s. snapshots (snd (code f r s)) = snapshots s"
    and run: "addBreadcrumb_heap code n route parentUrl a h = Some h'"
    by blast+
  have p: "\<And>x s s'. push a x s = Some s' \<Longrightarrow> snapshots s' = snapshots s"
    using push_preserves by blast
  show "snapshots h' = snapshots h"
    by (rule addBreadcrumb_heap_preserves
        [where obs = snapshots and code = code and a = a, OF c p run])
next
  assume "(\<forall>f r s. snd (code f r s) = s) \<and>
          addBreadcrumb_heap code n route parentUrl a h = Some h'"
  then have c: "\<And>f r s. snd (code f r s) = s"
    and run: "addBreadcrumb_heap code n route parentUrl a h = Some h'"
    by blast+
  have c1: "\<And>f r s. snapshots (snd (code f r s)) = snapshots s"
    by (simp only: c)
  have p1: "\<And>x s s'. push a x s = Some s' \<Longrightarrow> snapshots s' = snapshots s"
    using push_preserves by blast
  show "snapshots h' = snapshots h"
    by (rule addBreadcrumb_heap_preserves
        [where obs = snapshots and code = code and a = a, OF c1 p1 run])
  show "\<forall>b. b \<noteq> a \<longrightarrow> arrays h' b = arrays h b"
  proof (intro allI impI)
    fix b
    assume "b \<noteq> a"
    then have p2: "\<And>x s s'. push a x s = Some s' \<Longrightarrow> arrays s' b = arrays s b"
      using push_preserves by blast
    have c2: "\<And>f r s. arrays (snd (code f r s)) b = arrays s b"
      by (simp only: c)
    show "arrays h' b = arrays h b"
      by (rule addBreadcrumb_heap_preserves
          [where obs = "\<lambda>s. arrays s b" and code = code and a = a, OF c2 p2 run])
  qed
next
  assume "(\<forall>f r s ob. snapshots s r = Some ob \<longrightarrow>
             code f r s = (sem f (plain_heap (object_data ob)), s)) \<and>
          tree_at sem depth h r0 = Some t \<and> arrays h a = Some bs"
  then have pure: "\<And>f r s ob. snapshots s r = Some ob \<Longrightarrow>
             code f r s = (sem f (plain_heap (object_data ob)), s)"
    and tree: "tree_at sem depth h r0 = Some t" and arr: "arrays h a = Some bs"
    by blast+
  have len: "length (activePath t) < Suc (length (activePath t))" by simp
  show "addBreadcrumb_heap code (Suc (length (activePath t))) (Some r0) parentUrl a h =
          Some (h\<lparr>arrays := (arrays h)(a \<mapsto> addBreadcrumb (Some t) parentUrl bs)\<rparr>)"
    by (rule addBreadcrumb_heap_refines [where code = code and sem = sem, OF pure tree arr len])
  show "tree_at sem depth (h\<lparr>arrays := (arrays h)(a \<mapsto> addBreadcrumb (Some t) parentUrl bs)\<rparr>) r0 =
          Some t"
    using tree by (simp only: tree_at_arrays_update)
qed

theorem addBreadcrumb_leaves_route_tree_witness:
  "addBreadcrumb_heap readsUser (Suc (Suc (Suc 0))) (Some 10) [] 1
     \<lparr>snapshots =
        [10 \<mapsto> \<lparr>object_url = [\<lparr>path = ''users'', parameters = []\<rparr>],
                 object_data = [''breadcrumb'' \<mapsto> Plain (JStr ''Users'')],
                 object_children = [11]\<rparr>,
         11 \<mapsto> \<lparr>object_url = [\<lparr>path = ''1'', parameters = []\<rparr>],
                 object_data = [''breadcrumb'' \<mapsto> Function 0,
                                ''user'' \<mapsto> Plain (JStr ''Leanne Graham'')],
                 object_children = []\<rparr>],
      arrays = [1 \<mapsto> [], 2 \<mapsto> [\<lparr>label = JStr ''Old'', url = ''/old''\<rparr>]]\<rparr> =
   Some
     \<lparr>snapshots =
        [10 \<mapsto> \<lparr>object_url = [\<lparr>path = ''users'', parameters = []\<rparr>],
                 object_data = [''breadcrumb'' \<mapsto> Plain (JStr ''Users'')],
                 object_children = [11]\<rparr>,
         11 \<mapsto> \<lparr>object_url = [\<lparr>path = ''1'', parameters = []\<rparr>],
                 object_data = [''breadcrumb'' \<mapsto> Function 0,
                                ''user'' \<mapsto> Plain (JStr ''Leanne Graham'')],
                 object_children = []\<rparr>],
      arrays = [1 \<mapsto> [\<lparr>label = JStr ''Users'', url = ''/users''\<rparr>,
                      \<lparr>label = JStr ''Leanne Graham'', url = ''/users/1''\<rparr>],
                2 \<mapsto> [\<lparr>label = JStr ''Old'', url = ''/old''\<rparr>]]\<rparr> \<and>
   tree_at (\<lambda>f d. case d ''user'' of None \<Rightarrow> JUndefined | Some v \<Rightarrow> v) (Suc (Suc 0))
     \<lparr>snapshots =
        [10 \<mapsto> \<lparr>object_url = [\<lparr>path = ''users'', parameters = []\<rparr>],
                 object_data = [''breadcrumb'' \<mapsto> Plain (JStr ''Users'')],
                 object_children = [11]\<rparr>,
         11 \<mapsto> \<lparr>object_url = [\<lparr>path = ''1'', parameters = []\<rparr>],
                 object_data = [''breadcrumb'' \<mapsto> Function 0,
                                ''user'' \<mapsto> Plain (JStr ''Leanne Graham'')],
                 object_children = []\<rparr>],
      arrays = [1 \<mapsto> [\<lparr>label = JStr ''Users'', url = ''/users''\<rparr>,
                      \<lparr>label = JStr ''Leanne Graham'', url = ''/users/1''\<rparr>],
                2 \<mapsto> [\<lparr>label = JStr ''Old'', url = ''/old''\<rparr>]]\<rparr>
     10 =
   Some (ActivatedRouteSnapshot [\<lparr>path = ''users'', parameters = []\<rparr>]
        [''breadcrumb'' \<mapsto> Val (JStr ''Users'')]
        [ActivatedRouteSnapshot [\<lparr>path = ''1'', parameters = []\<rparr>]
           [''breadcrumb'' \<mapsto> Fn (\<lambda>d. case d ''user'' of None \<Rightarrow> JUndefined | Some v \<Rightarrow> v),
            ''user'' \<mapsto> Val (JStr ''Leanne Graham'')] []])"
proof -
  let ?sem = "\<lambda>(f :: nat) (d :: resolved). case d ''user'' of None \<Rightarrow> JUndefined | Some v \<Rightarrow> v"
  let ?snaps = "[10 \<mapsto> \<lparr>object_url = [\<lparr>path = ''users'', parameters = []\<rparr>],
                 object_data = [''breadcrumb'' \<mapsto> Plain (JStr ''Users'')],
                 object_children = [11]\<rparr>,
         11 \<mapsto> \<lparr>object_url = [\<lparr>path = ''1'', parameters = []\<rparr>],
                 object_data = [''breadcrumb'' \<mapsto> Function 0,
                                ''user'' \<mapsto> Plain (JStr ''Leanne Graham'')],
                 object_children = []\<rparr>] :: ref \<rightharpoonup> snapshotObject"
  let ?h = "\<lparr>snapshots = ?snaps,
             arrays = [1 \<mapsto> [], 2 \<mapsto> [\<lparr>label = JStr ''Old'', url = ''/old''\<rparr>]]\<rparr>"
  let ?h' = "\<lparr>snapshots = ?snaps,
      arrays = [1 \<mapsto> [\<lparr>label = JStr ''Users'', url = ''/users''\<rparr>,
                      \<lparr>label = JStr ''Leanne Graham'', url = ''/users/1''\<rparr>],
                2 \<mapsto> [\<lparr>label = JStr ''Old'', url = ''/old''\<rparr>]]\<rparr>"
  let ?leaf = "ActivatedRouteSnapshot [\<lparr>path = ''1'', parameters = []\<rparr>]
           [''breadcrumb'' \<mapsto> Fn (\<lambda>d. case d ''user'' of None \<Rightarrow> JUndefined | Some v \<Rightarrow> v),
            ''user'' \<mapsto> Val (JStr ''Leanne Graham'')] []"
  let ?t = "ActivatedRouteSnapshot [\<lparr>path = ''users'', parameters = []\<rparr>]
        [''breadcrumb'' \<mapsto> Val (JStr ''Users'')] [?leaf]"
  have keeps: "\<forall>f r s. snapshots (snd (readsUser f r s)) = snapshots s"
    by (simp add: readsUser_def split: option.splits stored.splits)
  have writes_nothing: "\<forall>f r s. snd (readsUser f r s) = s"
    by (simp add: readsUser_def split: option.splits stored.splits)
  have reads: "\<forall>f r s ob. snapshots s r = Some ob \<longrightarrow>
                 readsUser f r s = (?sem f (plain_heap (object_data ob)), s)"
    by (simp add: readsUser_def plain_heap_def split: option.splits stored.splits)
  have run: "addBreadcrumb_heap readsUser (Suc (Suc (Suc 0))) (Some 10) [] 1 ?h = Some ?h'"
    by (simp add: firstChild_heap_def push_def property_heap_def getLabel_heap_def
        readsUser_def fun_upd_twist)
  have tree: "tree_at ?sem (Suc (Suc 0)) ?h 10 = Some ?t"
    by (simp add: data_of_simps)
  have arr: "arrays ?h 1 = Some []"
    by simp
  have len: "length (activePath ?t) = Suc (Suc 0)"
    by (simp add: activePath.simps firstChild_def)
  have list: "addBreadcrumb (Some ?t) [] [] =
                [\<lparr>label = JStr ''Users'', url = ''/users''\<rparr>,
                 \<lparr>label = JStr ''Leanne Graham'', url = ''/users/1''\<rparr>]"
    by (simp add: addBreadcrumb.simps(2) firstChild_def property_def getLabel_def plain_def)
  have upd: "?h\<lparr>arrays := (arrays ?h)(1 \<mapsto> [\<lparr>label = JStr ''Users'', url = ''/users''\<rparr>,
                 \<lparr>label = JStr ''Leanne Graham'', url = ''/users/1''\<rparr>])\<rparr> = ?h'"
    by (simp add: fun_upd_twist)
  note inst = addBreadcrumb_leaves_route_tree
    [of readsUser "Suc (Suc (Suc 0))" "Some 10" "[]" 1 ?h ?h' ?sem "Suc (Suc 0)" 10 ?t "[]"]
  from inst [THEN conjunct1, THEN mp, OF conjI [OF keeps run]]
  have frame: "snapshots ?h' = snapshots ?h" .
  from inst [THEN conjunct2, THEN conjunct1, THEN mp, OF conjI [OF writes_nothing run]]
  have others: "snapshots ?h' = snapshots ?h \<and> (\<forall>b. b \<noteq> 1 \<longrightarrow> arrays ?h' b = arrays ?h b)" .
  from inst [THEN conjunct2, THEN conjunct2, THEN mp, OF conjI [OF reads conjI [OF tree arr]]]
  have "addBreadcrumb_heap readsUser (Suc (Suc (Suc 0))) (Some 10) [] 1 ?h = Some ?h' \<and>
        tree_at ?sem (Suc (Suc 0)) ?h' 10 = Some ?t"
    by (simp only: len list upd)
  with frame others show ?thesis by simp
qed

text \<open>C7 as it is written fails: \<^verbatim>\<open>getLabel\<close> hands the live data bag to the label
  function, and a label function can write to it. With the label function
  \<^verbatim>\<open>(data) => { data.visits = 1; return 'Users'; }\<close> on a single node, the run returns a
  store in which the node's data bag has gained the key \<^verbatim>\<open>visits\<close>: the snapshot objects
  after the run are not the snapshot objects before it.\<close>

theorem addBreadcrumb_leaves_route_tree_counterexample:
  "addBreadcrumb_heap countsVisits (Suc (Suc 0)) (Some 10) [] 1
     \<lparr>snapshots =
        [10 \<mapsto> \<lparr>object_url = [\<lparr>path = ''users'', parameters = []\<rparr>],
                 object_data = [''breadcrumb'' \<mapsto> Function 0],
                 object_children = []\<rparr>],
      arrays = [1 \<mapsto> []]\<rparr> =
   Some
     \<lparr>snapshots =
        [10 \<mapsto> \<lparr>object_url = [\<lparr>path = ''users'', parameters = []\<rparr>],
                 object_data = [''breadcrumb'' \<mapsto> Function 0,
                                ''visits'' \<mapsto> Plain (JNum 1)],
                 object_children = []\<rparr>],
      arrays = [1 \<mapsto> [\<lparr>label = JStr ''Users'', url = ''/users''\<rparr>]]\<rparr> \<and>
   snapshots
     \<lparr>snapshots =
        [10 \<mapsto> \<lparr>object_url = [\<lparr>path = ''users'', parameters = []\<rparr>],
                 object_data = [''breadcrumb'' \<mapsto> Function 0,
                                ''visits'' \<mapsto> Plain (JNum 1)],
                 object_children = []\<rparr>],
      arrays = [1 \<mapsto> [\<lparr>label = JStr ''Users'', url = ''/users''\<rparr>]]\<rparr> \<noteq>
   snapshots
     \<lparr>snapshots =
        [10 \<mapsto> \<lparr>object_url = [\<lparr>path = ''users'', parameters = []\<rparr>],
                 object_data = [''breadcrumb'' \<mapsto> Function 0],
                 object_children = []\<rparr>],
      arrays = [1 \<mapsto> []]\<rparr>"
proof -
  let ?d0 = "[''breadcrumb'' \<mapsto> Function 0] :: string \<rightharpoonup> stored"
  let ?d1 = "[''breadcrumb'' \<mapsto> Function 0, ''visits'' \<mapsto> Plain (JNum 1)] :: string \<rightharpoonup> stored"
  let ?s0 = "[10 \<mapsto> \<lparr>object_url = [\<lparr>path = ''users'', parameters = []\<rparr>],
                 object_data = ?d0, object_children = []\<rparr>] :: ref \<rightharpoonup> snapshotObject"
  let ?s1 = "[10 \<mapsto> \<lparr>object_url = [\<lparr>path = ''users'', parameters = []\<rparr>],
                 object_data = ?d1, object_children = []\<rparr>] :: ref \<rightharpoonup> snapshotObject"
  have run: "addBreadcrumb_heap countsVisits (Suc (Suc 0)) (Some 10) [] 1
               \<lparr>snapshots = ?s0, arrays = [1 \<mapsto> []]\<rparr> =
             Some \<lparr>snapshots = ?s1,
                    arrays = [1 \<mapsto> [\<lparr>label = JStr ''Users'', url = ''/users''\<rparr>]]\<rparr>"
    by (simp add: firstChild_heap_def push_def property_heap_def getLabel_heap_def
        countsVisits_def)
  have "?d1 ''visits'' \<noteq> ?d0 ''visits''" by simp
  then have "?d1 \<noteq> ?d0" by metis
  then have "?s1 10 \<noteq> ?s0 10" by simp
  then have "?s1 \<noteq> ?s0" by metis
  with run show ?thesis by simp
qed

end
